theory Spec2Isabelle
  imports Complex_Main
begin

section \<open>EcoBuild impact assessment engine\<close>

text \<open>
  A shallow embedding of \<^verbatim>\<open>main.py\<close> and \<^verbatim>\<open>models.py\<close>: the resource load, the
  great-circle distance, the enrichment of a request and the rule-based scoring of
  \<^verbatim>\<open>calculate_impact\<close>.

  Numbers: a Python \<^verbatim>\<open>float\<close> is modelled by a \<^typ>\<open>real\<close>, a Python \<^verbatim>\<open>int\<close> by an
  \<^typ>\<open>int\<close>. Rounding error, infinities and NaN of IEEE doubles are outside the model;
  every comparison, clamp and branch of the source is kept as written, and so is the
  conversion of an unbounded \<^verbatim>\<open>int\<close> to a \<^verbatim>\<open>float\<close>, which raises when the integer is
  too large. A string is a list of code points below 256 (Latin-1), one \<^typ>\<open>char\<close>
  each; \<^verbatim>\<open>str.lower\<close> and \<^verbatim>\<open>str.strip\<close> are modelled on all of them.
\<close>

subsection \<open>Errors\<close>

text \<open>
  \<^verbatim>\<open>math.sqrt\<close> and \<^verbatim>\<open>math.asin\<close> raise \<^verbatim>\<open>ValueError\<close> outside their domain. The
  product of an \<^verbatim>\<open>int\<close> and a \<^verbatim>\<open>float\<close> raises \<^verbatim>\<open>OverflowError\<close> when the integer
  does not convert to a float. \<^verbatim>\<open>RequestValidationError\<close> is what the web framework
  answers (HTTP 422) when the request body does not validate against the declared
  model class.
\<close>

datatype error = ValueError | OverflowError | RequestValidationError

subsection \<open>The model classes of models.py\<close>

record UserInput =
  city :: string
  project_type :: string
  land_area_m2 :: real
  built_up_area_m2 :: real
  floors :: int
  daily_water_m3 :: real
  daily_waste_kg :: real
  hazardous_waste_kg_per_month :: real
  vehicles_per_day :: int
  fuel_consumption_l_per_day :: real
  dg_hours_per_day :: real
  distance_to_residential_m :: real
  distance_to_water_body_km :: real
  vegetation_removed_percent :: real
  green_area_percent :: real
  has_rainwater_harvesting :: int
  has_solar :: int
  energy_efficient_lighting :: int
  waste_segregation :: int
  stp_present :: int

text \<open>
  The enriched record repeats most field names of the request; its selectors carry the
  prefix \<open>e_\<close> to keep the two records apart. \<^verbatim>\<open>rooms\<close> has the class default 1.
\<close>

record EnrichedProjectInput =
  e_land_area_m2 :: real
  e_built_up_area_m2 :: real
  e_floors :: int
  e_daily_water_m3 :: real
  e_daily_waste_kg :: real
  e_hazardous_waste_kg_per_month :: real
  e_vehicles_per_day :: int
  e_fuel_consumption_l_per_day :: real
  e_distance_to_residential_m :: real
  e_vegetation_removed_percent :: real
  e_avg_noise_db :: real
  e_near_sensitive_zone :: int
  e_baseline_pm25 :: real
  e_baseline_no2 :: real
  e_baseline_so2 :: real
  e_baseline_co :: real
  e_baseline_o3 :: real
  e_dg_hours_per_day :: real
  e_distance_to_water_body_km :: real
  e_stp_present :: int
  e_has_rainwater_harvesting :: int
  e_waste_segregation :: int
  e_green_area_percent :: int
  e_has_solar :: int
  e_energy_efficient_lighting :: int
  e_rooms :: int

record ImpactResult =
  overall_score :: real
  impact_class :: string
  breakdown :: "(string \<times> real) list"
  added_pollution :: "(string \<times> real) list"
  final_pollution :: "(string \<times> real) list"
  recommendations :: "string list"

subsection \<open>The reference tables\<close>

text \<open>
  One row of \<^verbatim>\<open>data/cities_aqi.csv\<close> with the columns the engine reads, and the column
  \<^verbatim>\<open>city_lower\<close> that the load adds; one row of \<^verbatim>\<open>data/sensitive_locations.csv\<close>.
\<close>

record city_row =
  c_city :: string
  c_latitude :: real
  c_longitude :: real
  c_pm25 :: real
  c_no2 :: real
  c_so2 :: real
  c_co_mg_m3 :: real
  c_o3 :: real
  c_city_lower :: string

record zone_row =
  z_name :: string
  z_category :: string
  z_lat :: real
  z_lng :: real

text \<open>
  The three module globals. \<open>None\<close> is Python's \<^verbatim>\<open>None\<close>. The classifier is opaque.
\<close>

record 'm resources =
  ML_MODEL :: "'m option"
  SENSITIVE_LOCS :: "zone_row list option"
  CITIES_DB :: "city_row list option"

subsection \<open>Strings\<close>

text \<open>
  \<^verbatim>\<open>str.lower\<close> on the code points below 256: the capitals A-Z (65-90) and the Latin-1
  capitals 192-222 other than the multiplication sign 215 move up by 32; every other
  code point stays.
\<close>

definition lower_char :: "char \<Rightarrow> char" where
  "lower_char c =
     (let n = (of_char c :: nat)
      in if 65 \<le> n \<and> n \<le> 90 then char_of (n + 32)
         else if 192 \<le> n \<and> n \<le> 222 \<and> n \<noteq> 215 then char_of (n + 32)
         else c)"

definition lower :: "string \<Rightarrow> string" where
  "lower s = map lower_char s"

text \<open>
  The code points below 256 for which \<^verbatim>\<open>str.isspace\<close> holds, which are the ones
  \<^verbatim>\<open>str.strip\<close> removes: they include the next-line control 133 and the no-break
  space 160.
\<close>

definition isspace :: "char \<Rightarrow> bool" where
  "isspace c = ((of_char c :: nat) \<in> {9, 10, 11, 12, 13, 28, 29, 30, 31, 32, 133, 160})"

definition strip :: "string \<Rightarrow> string" where
  "strip s = rev (dropWhile isspace (rev (dropWhile isspace s)))"

subsection \<open>Loading the resources (main.py, lines 31-43)\<close>

text \<open>
  Each argument is what the corresponding load returns, \<open>None\<close> when it raises. The
  three loads share one \<^verbatim>\<open>try\<close> block: when any of them raises, all three globals are
  set to \<^verbatim>\<open>None\<close>. On success the city table gets its lower-cased name column.
\<close>

definition add_city_lower :: "city_row \<Rightarrow> city_row" where
  "add_city_lower r = r\<lparr>c_city_lower := lower (c_city r)\<rparr>"

definition load_resources ::
  "'m option \<Rightarrow> zone_row list option \<Rightarrow> city_row list option \<Rightarrow> 'm resources" where
  "load_resources model locs cities =
     (case model of
        None \<Rightarrow> \<lparr>ML_MODEL = None, SENSITIVE_LOCS = None, CITIES_DB = None\<rparr>
      | Some m \<Rightarrow>
          (case locs of
             None \<Rightarrow> \<lparr>ML_MODEL = None, SENSITIVE_LOCS = None, CITIES_DB = None\<rparr>
           | Some zs \<Rightarrow>
               (case cities of
                  None \<Rightarrow> \<lparr>ML_MODEL = None, SENSITIVE_LOCS = None, CITIES_DB = None\<rparr>
                | Some cs \<Rightarrow>
                    \<lparr>ML_MODEL = Some m, SENSITIVE_LOCS = Some zs,
                     CITIES_DB = Some (map add_city_lower cs)\<rparr>)))"

subsection \<open>Great-circle distance (main.py, lines 54-65)\<close>

definition radians :: "real \<Rightarrow> real" where
  "radians x = x * pi / 180"

definition py_sqrt :: "real \<Rightarrow> error + real" where
  "py_sqrt x = (if x < 0 then Inl ValueError else Inr (sqrt x))"

definition py_asin :: "real \<Rightarrow> error + real" where
  "py_asin x = (if x < - 1 then Inl ValueError else if 1 < x then Inl ValueError else Inr (arcsin x))"

definition haversine :: "real \<Rightarrow> real \<Rightarrow> real \<Rightarrow> real \<Rightarrow> error + real" where
  "haversine lon1 lat1 lon2 lat2 =
     (let lon1 = radians lon1; lat1 = radians lat1;
          lon2 = radians lon2; lat2 = radians lat2;
          dlon = lon2 - lon1;
          dlat = lat2 - lat1;
          a = (sin (dlat / 2))\<^sup>2 + cos lat1 * cos lat2 * (sin (dlon / 2))\<^sup>2
      in case py_sqrt a of
           Inl e \<Rightarrow> Inl e
         | Inr s \<Rightarrow>
             (case py_asin s of
                Inl e \<Rightarrow> Inl e
              | Inr t \<Rightarrow> (let c = 2 * t; r = 6371 in Inr (c * r))))"

subsection \<open>Enrichment (main.py, lines 67-134)\<close>

text \<open>
  \<^verbatim>\<open>match = CITIES_DB[CITIES_DB['city_lower'] == city_key]\<close>, then \<^verbatim>\<open>match.iloc[0]\<close>
  unless the selection is empty: the first row whose lower-cased name is the key.
\<close>

definition lookup_city :: "'m resources \<Rightarrow> string \<Rightarrow> city_row option" where
  "lookup_city res city_key =
     (case CITIES_DB res of
        None \<Rightarrow> None
      | Some rows \<Rightarrow> find (\<lambda>r. c_city_lower r = city_key) rows)"

text \<open>The loop over the sensitive zones, with its \<^verbatim>\<open>break\<close> at the first zone within 5 km.\<close>

fun near_loop :: "real \<Rightarrow> real \<Rightarrow> zone_row list \<Rightarrow> error + int" where
  "near_loop lng lat [] = Inr 0"
| "near_loop lng lat (row # rows) =
     (case haversine lng lat (z_lng row) (z_lat row) of
        Inl e \<Rightarrow> Inl e
      | Inr dist_km \<Rightarrow> if dist_km < 5.0 then Inr 1 else near_loop lng lat rows)"

definition near_sensitive :: "'m resources \<Rightarrow> real \<Rightarrow> real \<Rightarrow> error + int" where
  "near_sensitive res lng lat =
     (case SENSITIVE_LOCS res of
        None \<Rightarrow> Inr 0
      | Some rows \<Rightarrow> near_loop lng lat rows)"

text \<open>Python's \<^verbatim>\<open>int(x)\<close> on a float: truncation towards zero.\<close>

definition py_int :: "real \<Rightarrow> int" where
  "py_int x = (if 0 \<le> x then \<lfloor>x\<rfloor> else \<lceil>x\<rceil>)"

definition city_key_of :: "UserInput \<Rightarrow> string" where
  "city_key_of user_input = strip (lower (city user_input))"

text \<open>The coordinates enrichment resolves (lines 86-87); they feed the proximity check.\<close>

definition resolve_lat :: "city_row option \<Rightarrow> real" where
  "resolve_lat city_data = (case city_data of Some row \<Rightarrow> c_latitude row | None \<Rightarrow> 20.5937)"

definition resolve_lng :: "city_row option \<Rightarrow> real" where
  "resolve_lng city_data = (case city_data of Some row \<Rightarrow> c_longitude row | None \<Rightarrow> 78.9629)"

definition base_noise_of :: "string \<Rightarrow> real" where
  "base_noise_of ptype =
     (if ptype = ''Industrial'' then 75.0
      else if ptype = ''Commercial'' then 65.0
      else 50.0)"

definition enrich_data :: "'m resources \<Rightarrow> UserInput \<Rightarrow> error + EnrichedProjectInput" where
  "enrich_data res user_input =
     (let city_key = city_key_of user_input;
          city_data = lookup_city res city_key;
          lat = resolve_lat city_data;
          lng = resolve_lng city_data
      in case near_sensitive res lng lat of
           Inl e \<Rightarrow> Inl e
         | Inr near \<Rightarrow>
             (let base_noise = base_noise_of (project_type user_input)
              in Inr \<lparr>
                e_land_area_m2 = land_area_m2 user_input,
                e_built_up_area_m2 = built_up_area_m2 user_input,
                e_floors = floors user_input,
                e_daily_water_m3 = daily_water_m3 user_input,
                e_daily_waste_kg = daily_waste_kg user_input,
                e_hazardous_waste_kg_per_month = hazardous_waste_kg_per_month user_input,
                e_vehicles_per_day = vehicles_per_day user_input,
                e_fuel_consumption_l_per_day = fuel_consumption_l_per_day user_input,
                e_distance_to_residential_m = distance_to_residential_m user_input,
                e_vegetation_removed_percent = vegetation_removed_percent user_input,
                e_avg_noise_db = base_noise,
                e_near_sensitive_zone = near,
                e_baseline_pm25 = (case city_data of Some row \<Rightarrow> c_pm25 row | None \<Rightarrow> 100.0),
                e_baseline_no2 = (case city_data of Some row \<Rightarrow> c_no2 row | None \<Rightarrow> 40.0),
                e_baseline_so2 = (case city_data of Some row \<Rightarrow> c_so2 row | None \<Rightarrow> 15.0),
                e_baseline_co = (case city_data of Some row \<Rightarrow> c_co_mg_m3 row | None \<Rightarrow> 1.5),
                e_baseline_o3 = (case city_data of Some row \<Rightarrow> c_o3 row | None \<Rightarrow> 30.0),
                e_dg_hours_per_day = dg_hours_per_day user_input,
                e_distance_to_water_body_km = distance_to_water_body_km user_input,
                e_stp_present = stp_present user_input,
                e_has_rainwater_harvesting = has_rainwater_harvesting user_input,
                e_waste_segregation = waste_segregation user_input,
                e_green_area_percent = py_int (green_area_percent user_input),
                e_has_solar = has_solar user_input,
                e_energy_efficient_lighting = energy_efficient_lighting user_input,
                e_rooms = 1\<rparr>))"

subsection \<open>Request validation (models.py, lines 4-36)\<close>


subsection \<open>Rounding\<close>

text \<open>
  \<^verbatim>\<open>round(x, ndigits)\<close>: the nearest multiple of \<open>10^(-ndigits)\<close>, a tie going to the
  even one.
\<close>

definition py_round :: "real \<Rightarrow> nat \<Rightarrow> real" where
  "py_round x ndigits =
     (let s = x * 10 ^ ndigits;
          f = \<lfloor>s\<rfloor>;
          d = s - of_int f;
          r = (if d < 1 / 2 then f else if 1 / 2 < d then f + 1
               else if even f then f else f + 1)
      in of_int r / 10 ^ ndigits)"

subsection \<open>Scoring (main.py, lines 172-267)\<close>

text \<open>
  \<^verbatim>\<open>int * float\<close> converts the integer to a float first. The conversion rounds to the
  nearest double and raises \<^verbatim>\<open>OverflowError\<close> when the result is beyond the largest
  one: from \<open>2^1024 - 2^970\<close> on, in absolute value.
\<close>

definition float_limit :: int where
  "float_limit = 2 ^ 1024 - 2 ^ 970"

definition float_convertible :: "int \<Rightarrow> bool" where
  "float_convertible n = (\<bar>n\<bar> < float_limit)"

definition py_float :: "int \<Rightarrow> error + real" where
  "py_float n = (if float_convertible n then Inr (of_int n) else Inl OverflowError)"

text \<open>
  Lines 179-187: the added pollution, the construction dust, the final concentrations.
  Lines 179 and 180 multiply the integer vehicle count by a float.
\<close>

definition added_pm25_of :: "EnrichedProjectInput \<Rightarrow> error + real" where
  "added_pm25_of data =
     (case py_float (e_vehicles_per_day data) of
        Inl e \<Rightarrow> Inl e
      | Inr vehicles \<Rightarrow>
          Inr (((vehicles * 0.5) + (e_fuel_consumption_l_per_day data * 2)) / 1000))"

definition added_no2_of :: "EnrichedProjectInput \<Rightarrow> error + real" where
  "added_no2_of data =
     (case py_float (e_vehicles_per_day data) of
        Inl e \<Rightarrow> Inl e
      | Inr vehicles \<Rightarrow>
          Inr (((vehicles * 0.2) + (e_fuel_consumption_l_per_day data * 20)) / 1000))"

definition construction_dust_of :: "EnrichedProjectInput \<Rightarrow> real" where
  "construction_dust_of data =
     e_built_up_area_m2 data * 0.0001 * (1 + (e_vegetation_removed_percent data / 100))"

definition final_pm25_of :: "EnrichedProjectInput \<Rightarrow> real \<Rightarrow> real" where
  "final_pm25_of data added_pm25 = e_baseline_pm25 data + (added_pm25 * 50)"

definition final_no2_of :: "EnrichedProjectInput \<Rightarrow> real \<Rightarrow> real" where
  "final_no2_of data added_no2 = e_baseline_no2 data + (added_no2 * 50)"

text \<open>Lines 195-196.\<close>

definition air_score_of :: "EnrichedProjectInput \<Rightarrow> real \<Rightarrow> real \<Rightarrow> real" where
  "air_score_of data final_pm25 final_no2 =
     (let air_score = (final_pm25 / 250 * 50) + (final_no2 / 100 * 30)
                      + (e_dg_hours_per_day data * 2)
      in min 100 air_score)"

text \<open>Lines 204-212. The score is a Python \<^verbatim>\<open>int\<close>.\<close>

definition water_score_of :: "EnrichedProjectInput \<Rightarrow> int" where
  "water_score_of data =
     (let persons = max 1 (e_built_up_area_m2 data / 15);
          lpcd = (e_daily_water_m3 data * 1000) / persons;
          water_score = 0;
          water_score = (if lpcd > 150 then water_score + 40 else water_score);
          water_score = (if e_distance_to_water_body_km data < 0.5 then water_score + 40
                         else water_score);
          water_score = (if e_stp_present data = 0 then water_score + 20 else water_score);
          water_score = (if e_has_rainwater_harvesting data = 1 then water_score - 10
                         else water_score)
      in max 0 (min 100 water_score))"

text \<open>Lines 215-217.\<close>

definition waste_score_of :: "EnrichedProjectInput \<Rightarrow> real" where
  "waste_score_of data =
     (let waste_score = (e_daily_waste_kg data / 100 * 10)
                        + (e_hazardous_waste_kg_per_month data * 2);
          waste_score = (if e_waste_segregation data = 0 then waste_score + 20 else waste_score)
      in min 100 waste_score)"

text \<open>Lines 220-223.\<close>

definition land_score_of :: "EnrichedProjectInput \<Rightarrow> real" where
  "land_score_of data =
     (let land_score = e_vegetation_removed_percent data;
          land_score = (if e_near_sensitive_zone data = 1 then land_score + 40 else land_score);
          land_score = (if e_green_area_percent data < 10 then land_score + 20 else land_score)
      in min 100 land_score)"

text \<open>Lines 226-229.\<close>

definition noise_score_of :: "EnrichedProjectInput \<Rightarrow> real" where
  "noise_score_of data =
     (let noise_score = e_avg_noise_db data - 45;
          noise_score = max 0 (noise_score * 2);
          noise_score = (if e_distance_to_residential_m data < 50 then noise_score + 20
                         else noise_score)
      in min 100 noise_score)"

text \<open>Line 233: the weighted sum, before any rounding.\<close>

definition weighted_overall :: "real \<Rightarrow> int \<Rightarrow> real \<Rightarrow> real \<Rightarrow> real \<Rightarrow> real" where
  "weighted_overall air_score water_score land_score waste_score noise_score =
     (air_score * 0.3) + (of_int water_score * 0.25) + (land_score * 0.2)
     + (waste_score * 0.15) + (noise_score * 0.10)"

text \<open>Lines 236-241: each rule that fires appends its text.\<close>

definition rec_air :: string where
  "rec_air = ''High Air Pollution risk: Install Air Purifiers and Smog Towers.''"

definition rec_water :: string where
  "rec_water = ''Critical Water usage: Mandate STP and Rainwater Harvesting.''"

definition rec_land :: string where
  "rec_land = ''High ecological impact: Increase Green Belt area > 30%.''"

definition rec_solar :: string where
  "rec_solar = ''Energy: Install Solar Panels to reduce carbon footprint.''"

definition rec_led :: string where
  "rec_led = ''Energy: Switch to LED lighting.''"

definition recommendations_of ::
  "real \<Rightarrow> int \<Rightarrow> real \<Rightarrow> EnrichedProjectInput \<Rightarrow> string list" where
  "recommendations_of air_score water_score land_score data =
     (let recs = [];
          recs = (if air_score > 50 then recs @ [rec_air] else recs);
          recs = (if water_score > 50 then recs @ [rec_water] else recs);
          recs = (if land_score > 50 then recs @ [rec_land] else recs);
          recs = (if e_has_solar data = 0 then recs @ [rec_solar] else recs);
          recs = (if e_energy_efficient_lighting data = 0 then recs @ [rec_led] else recs)
      in recs)"

text \<open>Lines 244-246.\<close>

definition impact_class_of :: "real \<Rightarrow> string" where
  "impact_class_of overall =
     (let imp_class = ''Low''
      in if overall > 60 then ''High''
         else if overall > 30 then ''Moderate''
         else imp_class)"

text \<open>
  The endpoint function. The request has passed \<open>UserInput_validate\<close>; an exception
  of the enrichment or of lines 179-180 leaves the function. The category is read off
  the weighted sum (lines 244-246) before the result rounds it (line 249).
  \<^verbatim>\<open>round(water_score, 1)\<close> of the integer water score is that integer.
\<close>

definition calculate_impact :: "'m resources \<Rightarrow> UserInput \<Rightarrow> error + ImpactResult" where
  "calculate_impact res user_data =
     (case enrich_data res user_data of
        Inl e \<Rightarrow> Inl e
      | Inr data \<Rightarrow>
     (case added_pm25_of data of
        Inl e \<Rightarrow> Inl e
      | Inr added_pm25 \<Rightarrow>
     (case added_no2_of data of
        Inl e \<Rightarrow> Inl e
      | Inr added_no2 \<Rightarrow>
          (let construction_dust = construction_dust_of data;
               final_pm25 = final_pm25_of data added_pm25;
               final_no2 = final_no2_of data added_no2;
               air_score = air_score_of data final_pm25 final_no2;
               water_score = water_score_of data;
               waste_score = waste_score_of data;
               land_score = land_score_of data;
               noise_score = noise_score_of data;
               overall = weighted_overall air_score water_score land_score waste_score
                           noise_score;
               recs = recommendations_of air_score water_score land_score data;
               imp_class = impact_class_of overall
           in Inr \<lparr>
                overall_score = py_round overall 1,
                impact_class = imp_class,
                breakdown =
                  [(''Air Impact'', py_round air_score 1),
                   (''Water Impact'', of_int water_score),
                   (''Land Impact'', py_round land_score 1),
                   (''Waste Impact'', py_round waste_score 1),
                   (''Noise Impact'', py_round noise_score 1)],
                added_pollution =
                  [(''PM2.5'', py_round added_pm25 4), (''NO2'', py_round added_no2 4)],
                final_pollution =
                  [(''PM2.5'', py_round final_pm25 2), (''NO2'', py_round final_no2 2)],
                recommendations = recs\<rparr>))))"


text \<open>
  The same function with the construction-dust line (line 183) taken out.
\<close>

definition calculate_impact_without_dust ::
  "'m resources \<Rightarrow> UserInput \<Rightarrow> error + ImpactResult" where
  "calculate_impact_without_dust res user_data =
     (case enrich_data res user_data of
        Inl e \<Rightarrow> Inl e
      | Inr data \<Rightarrow>
     (case added_pm25_of data of
        Inl e \<Rightarrow> Inl e
      | Inr added_pm25 \<Rightarrow>
     (case added_no2_of data of
        Inl e \<Rightarrow> Inl e
      | Inr added_no2 \<Rightarrow>
          (let
               final_pm25 = final_pm25_of data added_pm25;
               final_no2 = final_no2_of data added_no2;
               air_score = air_score_of data final_pm25 final_no2;
               water_score = water_score_of data;
               waste_score = waste_score_of data;
               land_score = land_score_of data;
               noise_score = noise_score_of data;
               overall = weighted_overall air_score water_score land_score waste_score
                           noise_score;
               recs = recommendations_of air_score water_score land_score data;
               imp_class = impact_class_of overall
           in Inr \<lparr>
                overall_score = py_round overall 1,
                impact_class = imp_class,
                breakdown =
                  [(''Air Impact'', py_round air_score 1),
                   (''Water Impact'', of_int water_score),
                   (''Land Impact'', py_round land_score 1),
                   (''Waste Impact'', py_round waste_score 1),
                   (''Noise Impact'', py_round noise_score 1)],
                added_pollution =
                  [(''PM2.5'', py_round added_pm25 4), (''NO2'', py_round added_no2 4)],
                final_pollution =
                  [(''PM2.5'', py_round final_pm25 2), (''NO2'', py_round final_no2 2)],
                recommendations = recs\<rparr>))))"

text \<open>
  Notation for the statements below: the air score and the weighted sum that belong to
  an enriched record and its two added-pollution values, and the record that
  \<open>calculate_impact\<close> returns for them (lines 248-267).
\<close>

abbreviation air_of :: "EnrichedProjectInput \<Rightarrow> real \<Rightarrow> real \<Rightarrow> real" where
  "air_of data added_pm25 added_no2 \<equiv>
     air_score_of data (final_pm25_of data added_pm25) (final_no2_of data added_no2)"

abbreviation sum_of :: "EnrichedProjectInput \<Rightarrow> real \<Rightarrow> real \<Rightarrow> real" where
  "sum_of data added_pm25 added_no2 \<equiv>
     weighted_overall (air_of data added_pm25 added_no2) (water_score_of data)
       (land_score_of data) (waste_score_of data) (noise_score_of data)"

abbreviation result_of :: "EnrichedProjectInput \<Rightarrow> real \<Rightarrow> real \<Rightarrow> ImpactResult" where
  "result_of data added_pm25 added_no2 \<equiv>
     \<lparr>overall_score = py_round (sum_of data added_pm25 added_no2) 1,
      impact_class = impact_class_of (sum_of data added_pm25 added_no2),
      breakdown =
        [(''Air Impact'', py_round (air_of data added_pm25 added_no2) 1),
         (''Water Impact'', of_int (water_score_of data)),
         (''Land Impact'', py_round (land_score_of data) 1),
         (''Waste Impact'', py_round (waste_score_of data) 1),
         (''Noise Impact'', py_round (noise_score_of data) 1)],
      added_pollution =
        [(''PM2.5'', py_round added_pm25 4), (''NO2'', py_round added_no2 4)],
      final_pollution =
        [(''PM2.5'', py_round (final_pm25_of data added_pm25) 2),
         (''NO2'', py_round (final_no2_of data added_no2) 2)],
      recommendations =
        recommendations_of (air_of data added_pm25 added_no2) (water_score_of data)
          (land_score_of data) data\<rparr>"

subsection \<open>Valid requests, non-negative baselines\<close>

text \<open>
  The conditions under which the score ranges are stated: every numeric field of the
  request is non-negative, and so is every baseline of the city table. A request has a
  negative field when one of these numeric fields is below 0.
\<close>

definition valid_input :: "UserInput \<Rightarrow> bool" where
  "valid_input u =
     (0 \<le> land_area_m2 u \<and> 0 \<le> built_up_area_m2 u \<and> 0 \<le> floors u
      \<and> 0 \<le> daily_water_m3 u \<and> 0 \<le> daily_waste_kg u
      \<and> 0 \<le> hazardous_waste_kg_per_month u \<and> 0 \<le> vehicles_per_day u
      \<and> 0 \<le> fuel_consumption_l_per_day u \<and> 0 \<le> dg_hours_per_day u
      \<and> 0 \<le> distance_to_residential_m u \<and> 0 \<le> distance_to_water_body_km u
      \<and> 0 \<le> vegetation_removed_percent u \<and> 0 \<le> green_area_percent u)"


definition nonneg_row :: "city_row \<Rightarrow> bool" where
  "nonneg_row r =
     (0 \<le> c_pm25 r \<and> 0 \<le> c_no2 r \<and> 0 \<le> c_so2 r \<and> 0 \<le> c_co_mg_m3 r \<and> 0 \<le> c_o3 r)"

definition nonneg_baselines :: "'m resources \<Rightarrow> bool" where
  "nonneg_baselines res =
     (case CITIES_DB res of None \<Rightarrow> True | Some rows \<Rightarrow> list_all nonneg_row rows)"

subsection \<open>Example data\<close>

text \<open>A loaded store with one city and one sensitive zone at its centre, and a request.\<close>

definition example_city :: city_row where
  "example_city =
     \<lparr>c_city = ''Delhi'', c_latitude = 28.61, c_longitude = 77.21,
      c_pm25 = 120, c_no2 = 50, c_so2 = 12, c_co_mg_m3 = 1.2, c_o3 = 35,
      c_city_lower = []\<rparr>"

definition example_zone :: zone_row where
  "example_zone =
     \<lparr>z_name = ''Central Ridge'', z_category = ''Forest'', z_lat = 28.61, z_lng = 77.21\<rparr>"

definition example_resources :: "unit resources" where
  "example_resources = load_resources (Some ()) (Some [example_zone]) (Some [example_city])"

definition example_input :: UserInput where
  "example_input =
     \<lparr>city = '' Delhi'', project_type = ''Residential'',
      land_area_m2 = 2000, built_up_area_m2 = 1500, floors = 4,
      daily_water_m3 = 20, daily_waste_kg = 50, hazardous_waste_kg_per_month = 1,
      vehicles_per_day = 40, fuel_consumption_l_per_day = 10, dg_hours_per_day = 2,
      distance_to_residential_m = 100, distance_to_water_body_km = 0.3,
      vegetation_removed_percent = 10, green_area_percent = 9.9,
      has_rainwater_harvesting = 0, has_solar = 0, energy_efficient_lighting = 0,
      waste_segregation = 1, stp_present = 0\<rparr>"

text \<open>What enrichment makes of the example request.\<close>

definition example_data :: EnrichedProjectInput where
  "example_data =
     \<lparr>e_land_area_m2 = 2000, e_built_up_area_m2 = 1500, e_floors = 4,
      e_daily_water_m3 = 20, e_daily_waste_kg = 50, e_hazardous_waste_kg_per_month = 1,
      e_vehicles_per_day = 40, e_fuel_consumption_l_per_day = 10,
      e_distance_to_residential_m = 100, e_vegetation_removed_percent = 10,
      e_avg_noise_db = 50, e_near_sensitive_zone = 1,
      e_baseline_pm25 = 120, e_baseline_no2 = 50, e_baseline_so2 = 12,
      e_baseline_co = 1.2, e_baseline_o3 = 35,
      e_dg_hours_per_day = 2, e_distance_to_water_body_km = 0.3,
      e_stp_present = 0, e_has_rainwater_harvesting = 0, e_waste_segregation = 1,
      e_green_area_percent = 9, e_has_solar = 0, e_energy_efficient_lighting = 0,
      e_rooms = 1\<rparr>"



text \<open>
  A store whose load failed (the classifier could not be read), and a loaded store with
  the example city and no sensitive zone.
\<close>

definition degraded_resources :: "unit resources" where
  "degraded_resources = load_resources None (Some [example_zone]) (Some [example_city])"

definition plain_resources :: "unit resources" where
  "plain_resources = load_resources (Some ()) (Some []) (Some [example_city])"

text \<open>
  Requests that name a city no table has: a plain one, one whose weighted sum is 30.04,
  one with the scores 70, 10 and 10 for air, water and land, and a valid one whose
  vehicle count is too large for a float.
\<close>

definition fallback_input :: UserInput where
  "fallback_input =
     \<lparr>city = ''Atlantis'', project_type = ''Residential'',
      land_area_m2 = 1000, built_up_area_m2 = 1500, floors = 2,
      daily_water_m3 = 0, daily_waste_kg = 0, hazardous_waste_kg_per_month = 0,
      vehicles_per_day = 0, fuel_consumption_l_per_day = 0, dg_hours_per_day = 0,
      distance_to_residential_m = 100, distance_to_water_body_km = 0.3,
      vegetation_removed_percent = 32, green_area_percent = 20,
      has_rainwater_harvesting = 0, has_solar = 1, energy_efficient_lighting = 1,
      waste_segregation = 0, stp_present = 1\<rparr>"


definition rec_input :: UserInput where
  "rec_input =
     fallback_input\<lparr>dg_hours_per_day := 19, distance_to_water_body_km := 1,
       stp_present := 0, has_rainwater_harvesting := 1, vegetation_removed_percent := 10,
       has_solar := 0, energy_efficient_lighting := 0\<rparr>"


text \<open>
  The record enrichment builds from a request when the city is not found and no
  sensitive zone is near: the fields of the request, the noise level of its project
  type, the flag 0 and the fallback baselines.
\<close>

definition fallback_data :: "UserInput \<Rightarrow> EnrichedProjectInput" where
  "fallback_data u =
     \<lparr>e_land_area_m2 = land_area_m2 u, e_built_up_area_m2 = built_up_area_m2 u,
      e_floors = floors u, e_daily_water_m3 = daily_water_m3 u,
      e_daily_waste_kg = daily_waste_kg u,
      e_hazardous_waste_kg_per_month = hazardous_waste_kg_per_month u,
      e_vehicles_per_day = vehicles_per_day u,
      e_fuel_consumption_l_per_day = fuel_consumption_l_per_day u,
      e_distance_to_residential_m = distance_to_residential_m u,
      e_vegetation_removed_percent = vegetation_removed_percent u,
      e_avg_noise_db = base_noise_of (project_type u), e_near_sensitive_zone = 0,
      e_baseline_pm25 = 100, e_baseline_no2 = 40, e_baseline_so2 = 15,
      e_baseline_co = 1.5, e_baseline_o3 = 30,
      e_dg_hours_per_day = dg_hours_per_day u,
      e_distance_to_water_body_km = distance_to_water_body_km u,
      e_stp_present = stp_present u,
      e_has_rainwater_harvesting = has_rainwater_harvesting u,
      e_waste_segregation = waste_segregation u,
      e_green_area_percent = py_int (green_area_percent u),
      e_has_solar = has_solar u,
      e_energy_efficient_lighting = energy_efficient_lighting u, e_rooms = 1\<rparr>"

section \<open>Properties\<close>

subsection \<open>The great-circle distance\<close>

lemma sin_half_squared:
  fixes t :: real
  shows "(sin (t / 2))\<^sup>2 = (1 - cos t) / 2"
  using cos_double_sin [of "t / 2"] by simp

lemma hav_identity:
  fixes x y u v :: real
  shows "(sin ((y - x) / 2))\<^sup>2 + cos x * cos y * (sin ((v - u) / 2))\<^sup>2
   = (1 - (sin x * sin y + cos x * cos y * cos (v - u))) / 2"
proof -
  have c: "cos (y - x) = cos x * cos y + sin x * sin y"
    by (simp add: cos_diff mult.commute)
  have "(sin ((y - x) / 2))\<^sup>2 + cos x * cos y * (sin ((v - u) / 2))\<^sup>2
        = (1 - (cos x * cos y + sin x * sin y)) / 2 + cos x * cos y * ((1 - cos (v - u)) / 2)"
    by (simp only: sin_half_squared c)
  also have "\<dots> = (1 - (sin x * sin y + cos x * cos y * cos (v - u))) / 2"
    by (simp add: field_simps)
  finally show ?thesis .
qed

lemma dot_bound:
  fixes k x y :: real
  assumes "- 1 \<le> k" "k \<le> 1"
  shows "\<bar>sin x * sin y + cos x * cos y * k\<bar> \<le> 1"
proof -
  define A where "A = sin x * sin y"
  define B where "B = cos x * cos y"
  have "\<bar>cos (x - y)\<bar> \<le> 1" "\<bar>cos (x + y)\<bar> \<le> 1"
    by simp_all
  then have pq: "\<bar>B + A\<bar> \<le> 1" "\<bar>B - A\<bar> \<le> 1"
    by (simp_all add: A_def B_def cos_diff cos_add)
  have e: "A + B * k = ((1 + k) / 2) * (B + A) - ((1 - k) / 2) * (B - A)"
    by (simp add: field_simps)
  define P where "P = ((1 + k) / 2) * (B + A)"
  define Q where "Q = ((1 - k) / 2) * (B - A)"
  have a: "\<bar>P\<bar> \<le> (1 + k) / 2"
    using assms pq(1) by (simp add: P_def abs_mult mult_left_le)
  have b: "\<bar>Q\<bar> \<le> (1 - k) / 2"
    using assms pq(2) by (simp add: Q_def abs_mult mult_left_le)
  from a b have "\<bar>P - Q\<bar> \<le> 1"
    by (auto simp: abs_le_iff)
  then have "\<bar>((1 + k) / 2) * (B + A) - ((1 - k) / 2) * (B - A)\<bar> \<le> 1"
    by (simp only: P_def Q_def)
  then have "\<bar>A + B * k\<bar> \<le> 1" by (simp only: e)
  then show ?thesis by (simp only: A_def B_def)
qed

lemma hav_range:
  fixes x y u v :: real
  shows "0 \<le> (sin ((y - x) / 2))\<^sup>2 + cos x * cos y * (sin ((v - u) / 2))\<^sup>2
    \<and> (sin ((y - x) / 2))\<^sup>2 + cos x * cos y * (sin ((v - u) / 2))\<^sup>2 \<le> 1"
proof -
  define D where "D = sin x * sin y + cos x * cos y * cos (v - u)"
  have "\<bar>D\<bar> \<le> 1"
    unfolding D_def by (rule dot_bound) simp_all
  then have "0 \<le> (1 - D) / 2 \<and> (1 - D) / 2 \<le> 1"
    by (simp add: abs_le_iff)
  then show ?thesis
    by (simp only: hav_identity D_def)
qed

lemma haversine_Inr:
  "haversine lon1 lat1 lon2 lat2 =
     Inr (2 * arcsin (sqrt ((sin ((radians lat2 - radians lat1) / 2))\<^sup>2
            + cos (radians lat1) * cos (radians lat2)
              * (sin ((radians lon2 - radians lon1) / 2))\<^sup>2)) * 6371)"
proof -
  define a where "a = (sin ((radians lat2 - radians lat1) / 2))\<^sup>2
            + cos (radians lat1) * cos (radians lat2)
              * (sin ((radians lon2 - radians lon1) / 2))\<^sup>2"
  have r: "0 \<le> a \<and> a \<le> 1"
    unfolding a_def by (rule hav_range)
  then have s: "0 \<le> sqrt a \<and> sqrt a \<le> 1"
    by (simp add: real_sqrt_le_1_iff)
  have "\<not> a < 0" "\<not> sqrt a < - 1" "\<not> 1 < sqrt a"
    using r s by linarith+
  then show ?thesis
    unfolding haversine_def Let_def py_sqrt_def py_asin_def a_def [symmetric]
    by simp
qed

lemma sin_half_swap:
  fixes p q :: real
  shows "(sin ((p - q) / 2))\<^sup>2 = (sin ((q - p) / 2))\<^sup>2"
proof -
  have "(p - q) / 2 = - ((q - p) / 2)" by argo
  then have "sin ((p - q) / 2) = - sin ((q - p) / 2)"
    by (simp only: sin_minus)
  then show ?thesis by simp
qed

lemma haversine_same: "haversine lon lat lon lat = Inr 0"
  by (simp add: haversine_Inr)

text \<open>
  Claim C6. The great-circle distance is symmetric in its two points, and the distance
  from a point to itself is 0 (over the reals; the function never raises there).
\<close>

theorem haversine_symmetric_zero:
  "haversine lon1 lat1 lon2 lat2 = haversine lon2 lat2 lon1 lat1
   \<and> haversine lon1 lat1 lon1 lat1 = Inr 0"
proof
  show "haversine lon1 lat1 lon2 lat2 = haversine lon2 lat2 lon1 lat1"
    by (simp add: haversine_Inr sin_half_swap [of "radians lat2" "radians lat1"]
          sin_half_swap [of "radians lon2" "radians lon1"] mult.commute)
  show "haversine lon1 lat1 lon1 lat1 = Inr 0"
    by (simp add: haversine_Inr)
qed

subsection \<open>Enrichment always returns\<close>

lemma near_loop_returns:
  "near_loop lng lat rows = Inr 0 \<or> near_loop lng lat rows = Inr 1"
  by (induction rows) (auto simp: haversine_Inr)

lemma near_sensitive_returns:
  "near_sensitive res lng lat = Inr 0 \<or> near_sensitive res lng lat = Inr 1"
  using near_loop_returns [of lng lat] by (simp add: near_sensitive_def split: option.split)

lemma enrich_data_returns: "\<exists>data. enrich_data res u = Inr data"
  using near_sensitive_returns
    [of res "resolve_lng (lookup_city res (city_key_of u))"
       "resolve_lat (lookup_city res (city_key_of u))"]
  by (auto simp: enrich_data_def Let_def)

lemma enrich_data_fields:
  assumes "enrich_data res u = Inr data"
  shows "e_land_area_m2 data = land_area_m2 u"
    and "e_built_up_area_m2 data = built_up_area_m2 u"
    and "e_floors data = floors u"
    and "e_daily_water_m3 data = daily_water_m3 u"
    and "e_daily_waste_kg data = daily_waste_kg u"
    and "e_hazardous_waste_kg_per_month data = hazardous_waste_kg_per_month u"
    and "e_vehicles_per_day data = vehicles_per_day u"
    and "e_fuel_consumption_l_per_day data = fuel_consumption_l_per_day u"
    and "e_distance_to_residential_m data = distance_to_residential_m u"
    and "e_vegetation_removed_percent data = vegetation_removed_percent u"
    and "e_avg_noise_db data = base_noise_of (project_type u)"
    and "e_dg_hours_per_day data = dg_hours_per_day u"
    and "e_distance_to_water_body_km data = distance_to_water_body_km u"
    and "e_stp_present data = stp_present u"
    and "e_has_rainwater_harvesting data = has_rainwater_harvesting u"
    and "e_waste_segregation data = waste_segregation u"
    and "e_green_area_percent data = py_int (green_area_percent u)"
    and "e_has_solar data = has_solar u"
    and "e_energy_efficient_lighting data = energy_efficient_lighting u"
    and "e_rooms data = 1"
  using assms by (auto simp: enrich_data_def Let_def split: sum.splits)

lemma enrich_data_near:
  assumes "enrich_data res u = Inr data"
  shows "near_sensitive res (resolve_lng (lookup_city res (city_key_of u)))
           (resolve_lat (lookup_city res (city_key_of u))) = Inr (e_near_sensitive_zone data)"
  using assms by (auto simp: enrich_data_def Let_def split: sum.splits)

lemma enrich_data_baselines:
  assumes "enrich_data res u = Inr data"
  shows "e_baseline_pm25 data =
           (case lookup_city res (city_key_of u) of Some row \<Rightarrow> c_pm25 row | None \<Rightarrow> 100)"
    and "e_baseline_no2 data =
           (case lookup_city res (city_key_of u) of Some row \<Rightarrow> c_no2 row | None \<Rightarrow> 40)"
    and "e_baseline_so2 data =
           (case lookup_city res (city_key_of u) of Some row \<Rightarrow> c_so2 row | None \<Rightarrow> 15)"
    and "e_baseline_co data =
           (case lookup_city res (city_key_of u) of Some row \<Rightarrow> c_co_mg_m3 row | None \<Rightarrow> 1.5)"
    and "e_baseline_o3 data =
           (case lookup_city res (city_key_of u) of Some row \<Rightarrow> c_o3 row | None \<Rightarrow> 30)"
  using assms by (auto simp: enrich_data_def Let_def split: sum.splits option.splits)

lemma lookup_city_None_iff:
  "lookup_city res k = None \<longleftrightarrow>
     (case CITIES_DB res of None \<Rightarrow> True | Some rows \<Rightarrow> k \<notin> set (map c_city_lower rows))"
  by (auto simp: lookup_city_def find_None_iff split: option.splits)

subsection \<open>The example data, evaluated\<close>

lemma example_resources_eq:
  "example_resources =
     \<lparr>ML_MODEL = Some (), SENSITIVE_LOCS = Some [example_zone],
      CITIES_DB = Some [example_city\<lparr>c_city_lower := ''delhi''\<rparr>]\<rparr>"
proof -
  have "lower ''Delhi'' = ''delhi''" by code_simp
  then show ?thesis
    by (simp add: example_resources_def load_resources_def add_city_lower_def example_city_def)
qed

lemma example_keys:
  "city_key_of example_input = ''delhi''"
  "city_key_of (example_input\<lparr>city := ''Atlantis''\<rparr>) = ''atlantis''"
proof -
  have "strip (lower '' Delhi'') = ''delhi''" "strip (lower ''Atlantis'') = ''atlantis''"
    by code_simp+
  then show "city_key_of example_input = ''delhi''"
    "city_key_of (example_input\<lparr>city := ''Atlantis''\<rparr>) = ''atlantis''"
    by (simp_all add: city_key_of_def example_input_def)
qed

subsection \<open>The scoring function\<close>

lemma float_convertible_small: "\<bar>n\<bar> < 2 ^ 64 \<Longrightarrow> float_convertible n"
  by (simp add: float_convertible_def float_limit_def)

lemma added_Inr:
  assumes "float_convertible (e_vehicles_per_day data)"
  shows "added_pm25_of data =
           Inr (((of_int (e_vehicles_per_day data) * 0.5)
                 + (e_fuel_consumption_l_per_day data * 2)) / 1000)"
    and "added_no2_of data =
           Inr (((of_int (e_vehicles_per_day data) * 0.2)
                 + (e_fuel_consumption_l_per_day data * 20)) / 1000)"
  using assms by (simp_all add: added_pm25_of_def added_no2_of_def py_float_def)

lemma added_Inl:
  assumes "\<not> float_convertible (e_vehicles_per_day data)"
  shows "added_pm25_of data = Inl OverflowError"
  using assms by (simp add: added_pm25_of_def py_float_def)

lemma calculate_impact_Inr:
  assumes "enrich_data res u = Inr data"
    and "added_pm25_of data = Inr added_pm25" "added_no2_of data = Inr added_no2"
  shows "calculate_impact res u = Inr (result_of data added_pm25 added_no2)"
  by (simp add: calculate_impact_def assms Let_def)

lemma calculate_impact_overflow:
  assumes "enrich_data res u = Inr data" "\<not> float_convertible (e_vehicles_per_day data)"
  shows "calculate_impact res u = Inl OverflowError"
  by (simp add: calculate_impact_def assms(1) added_Inl [OF assms(2)])

lemma calculate_impact_returns:
  assumes "float_convertible (vehicles_per_day u)"
  shows "\<exists>data added_pm25 added_no2.
           enrich_data res u = Inr data \<and> added_pm25_of data = Inr added_pm25
           \<and> added_no2_of data = Inr added_no2
           \<and> calculate_impact res u = Inr (result_of data added_pm25 added_no2)"
proof -
  obtain data where d: "enrich_data res u = Inr data"
    using enrich_data_returns by blast
  have c: "float_convertible (e_vehicles_per_day data)"
    using assms by (simp add: enrich_data_fields(7) [OF d])
  note a = added_Inr [OF c]
  show ?thesis
    using d a calculate_impact_Inr [OF d a] by blast
qed

lemma calculate_impact_raises:
  assumes "\<not> float_convertible (vehicles_per_day u)"
  shows "calculate_impact res u = Inl OverflowError"
proof -
  obtain data where d: "enrich_data res u = Inr data"
    using enrich_data_returns by blast
  have "\<not> float_convertible (e_vehicles_per_day data)"
    using assms by (simp add: enrich_data_fields(7) [OF d])
  then show ?thesis
    by (rule calculate_impact_overflow [OF d])
qed

subsection \<open>Construction dust\<close>

text \<open>
  Claim C9. The construction-dust term has no effect: the endpoint function returns the
  same value (the same result, field by field, or the same error) as the function
  without the construction-dust line.
\<close>

theorem construction_dust_unused:
  "calculate_impact res u = calculate_impact_without_dust res u"
  by (simp add: calculate_impact_def calculate_impact_without_dust_def Let_def
      split: sum.split)

subsection \<open>Score ranges\<close>

lemma round_half_even_bounds:
  fixes s :: real and a b :: int
  assumes "of_int a \<le> s" "s \<le> of_int b"
  defines "f \<equiv> \<lfloor>s\<rfloor>"
  defines "d \<equiv> s - of_int f"
  shows "a \<le> (if d < 1 / 2 then f else if 1 / 2 < d then f + 1 else if even f then f else f + 1)
       \<and> (if d < 1 / 2 then f else if 1 / 2 < d then f + 1 else if even f then f else f + 1) \<le> b"
proof -
  have lo: "a \<le> f"
    using assms(1) by (simp add: f_def le_floor_iff)
  have hi: "f \<le> b"
    using assms(2) by (simp add: f_def floor_le_iff)
  have up: "f + 1 \<le> b" if "\<not> d < 1 / 2"
  proof -
    from that have "of_int f < s" by (simp add: d_def)
    with assms(2) have "of_int f < (of_int b :: real)" by linarith
    then show ?thesis by simp
  qed
  from lo hi up show ?thesis by auto
qed

lemma py_round_bounds:
  assumes "0 \<le> x" "x \<le> 100"
  shows "0 \<le> py_round x 1 \<and> py_round x 1 \<le> 100"
proof -
  have "of_int 0 \<le> x * 10" "x * 10 \<le> of_int 1000"
    using assms by simp_all
  from round_half_even_bounds [OF this]
  show ?thesis
    by (simp add: py_round_def Let_def)
qed

lemma lookup_city_nonneg:
  assumes "nonneg_baselines res" "lookup_city res k = Some row"
  shows "nonneg_row row"
  using assms
  by (auto simp: nonneg_baselines_def lookup_city_def find_Some_iff list_all_iff
      split: option.splits)

lemma enrich_data_baselines_nonneg:
  assumes "nonneg_baselines res" "enrich_data res u = Inr data"
  shows "0 \<le> e_baseline_pm25 data \<and> 0 \<le> e_baseline_no2 data"
proof (cases "lookup_city res (city_key_of u)")
  case None
  then show ?thesis
    using enrich_data_baselines [OF assms(2)] by simp
next
  case (Some row)
  then have "nonneg_row row"
    using lookup_city_nonneg [OF assms(1)] by blast
  then show ?thesis
    using enrich_data_baselines [OF assms(2)] Some by (simp add: nonneg_row_def)
qed

lemma air_score_bounds:
  assumes "0 \<le> e_baseline_pm25 data" "0 \<le> e_baseline_no2 data"
    and "0 \<le> e_vehicles_per_day data" "0 \<le> e_fuel_consumption_l_per_day data"
    and "0 \<le> e_dg_hours_per_day data"
    and "added_pm25_of data = Inr added_pm25" "added_no2_of data = Inr added_no2"
  shows "0 \<le> air_of data added_pm25 added_no2 \<and> air_of data added_pm25 added_no2 \<le> 100"
proof -
  have v: "0 \<le> (of_int (e_vehicles_per_day data) :: real)"
    using assms(3) by simp
  have c: "float_convertible (e_vehicles_per_day data)"
    using assms(6) by (auto simp: added_pm25_of_def py_float_def split: if_splits)
  have "0 \<le> added_pm25" "0 \<le> added_no2"
    using v assms(4) assms(6,7) by (simp_all add: added_Inr [OF c])
  then have "0 \<le> final_pm25_of data added_pm25" "0 \<le> final_no2_of data added_no2"
    using assms(1,2) by (simp_all add: final_pm25_of_def final_no2_of_def)
  then have "0 \<le> (final_pm25_of data added_pm25 / 250 * 50)
               + (final_no2_of data added_no2 / 100 * 30) + (e_dg_hours_per_day data * 2)"
    using assms(5) by simp
  then show ?thesis
    by (simp add: air_score_of_def Let_def)
qed

lemma water_score_bounds: "0 \<le> water_score_of data \<and> water_score_of data \<le> 100"
  by (simp add: water_score_of_def Let_def)

lemma waste_score_bounds:
  assumes "0 \<le> e_daily_waste_kg data" "0 \<le> e_hazardous_waste_kg_per_month data"
  shows "0 \<le> waste_score_of data \<and> waste_score_of data \<le> 100"
  using assms by (simp add: waste_score_of_def Let_def)

lemma land_score_bounds:
  assumes "0 \<le> e_vegetation_removed_percent data"
  shows "0 \<le> land_score_of data \<and> land_score_of data \<le> 100"
  using assms by (simp add: land_score_of_def Let_def)

lemma noise_score_bounds: "0 \<le> noise_score_of data \<and> noise_score_of data \<le> 100"
  by (simp add: noise_score_of_def Let_def)

lemma weighted_overall_bounds:
  assumes "0 \<le> a \<and> a \<le> 100" "0 \<le> w \<and> w \<le> 100" "0 \<le> l \<and> l \<le> 100"
    and "0 \<le> s \<and> s \<le> 100" "0 \<le> n \<and> n \<le> 100"
  shows "0 \<le> weighted_overall a w l s n \<and> weighted_overall a w l s n \<le> 100"
proof -
  have "0 \<le> (of_int w :: real) \<and> (of_int w :: real) \<le> 100"
    using assms(2) by simp
  then show ?thesis
    using assms(1,3,4,5) by (simp add: weighted_overall_def)
qed

text \<open>
  Claim C2. For a request whose numeric fields are all non-negative and a store whose
  baselines are non-negative, each of the five sub-scores (air, water, waste, land,
  noise), as computed and as returned in the breakdown, lies in [0, 100], and so does
  the overall score, as the weighted sum and as returned. The endpoint returns these
  scores whenever the vehicle count converts to a float; otherwise line 179 raises and
  there are no scores.
\<close>

theorem scores_in_range:
  assumes "valid_input u" "nonneg_baselines res"
  shows "if float_convertible (vehicles_per_day u)
         then \<exists>data added_pm25 added_no2 r.
           enrich_data res u = Inr data \<and> added_pm25_of data = Inr added_pm25
           \<and> added_no2_of data = Inr added_no2 \<and> calculate_impact res u = Inr r
           \<and> 0 \<le> air_of data added_pm25 added_no2
           \<and> air_of data added_pm25 added_no2 \<le> 100
           \<and> 0 \<le> water_score_of data \<and> water_score_of data \<le> 100
           \<and> 0 \<le> waste_score_of data \<and> waste_score_of data \<le> 100
           \<and> 0 \<le> land_score_of data \<and> land_score_of data \<le> 100
           \<and> 0 \<le> noise_score_of data \<and> noise_score_of data \<le> 100
           \<and> map fst (breakdown r) =
               [''Air Impact'', ''Water Impact'', ''Land Impact'', ''Waste Impact'',
                ''Noise Impact'']
           \<and> list_all (\<lambda>kv. 0 \<le> snd kv \<and> snd kv \<le> 100) (breakdown r)
           \<and> 0 \<le> sum_of data added_pm25 added_no2
           \<and> sum_of data added_pm25 added_no2 \<le> 100
           \<and> overall_score r = py_round (sum_of data added_pm25 added_no2) 1
           \<and> 0 \<le> overall_score r \<and> overall_score r \<le> 100
         else calculate_impact res u = Inl OverflowError"
proof (cases "float_convertible (vehicles_per_day u)")
  case False
  then show ?thesis
    by (simp add: calculate_impact_raises)
next
  case True
  obtain data ap an where d: "enrich_data res u = Inr data"
    and ap: "added_pm25_of data = Inr ap" and an: "added_no2_of data = Inr an"
    and r: "calculate_impact res u = Inr (result_of data ap an)"
    using calculate_impact_returns [OF True] by blast
  note f = enrich_data_fields [OF d]
  have b: "0 \<le> e_baseline_pm25 data \<and> 0 \<le> e_baseline_no2 data"
    by (rule enrich_data_baselines_nonneg [OF assms(2) d])
  have air: "0 \<le> air_of data ap an \<and> air_of data ap an \<le> 100"
    using assms(1) b ap an by (intro air_score_bounds) (simp_all add: f valid_input_def)
  have water: "0 \<le> water_score_of data \<and> water_score_of data \<le> 100"
    by (rule water_score_bounds)
  have waste: "0 \<le> waste_score_of data \<and> waste_score_of data \<le> 100"
    using assms(1) by (intro waste_score_bounds) (simp_all add: f valid_input_def)
  have land: "0 \<le> land_score_of data \<and> land_score_of data \<le> 100"
    using assms(1) by (intro land_score_bounds) (simp_all add: f valid_input_def)
  have noise: "0 \<le> noise_score_of data \<and> noise_score_of data \<le> 100"
    by (rule noise_score_bounds)
  define overall where "overall = sum_of data ap an"
  have ov: "0 \<le> overall \<and> overall \<le> 100"
    unfolding overall_def by (rule weighted_overall_bounds [OF air water land waste noise])
  have rov: "0 \<le> py_round overall 1 \<and> py_round overall 1 \<le> 100"
    using ov py_round_bounds [of overall] by blast
  have ws: "0 \<le> (of_int (water_score_of data) :: real)
            \<and> (of_int (water_score_of data) :: real) \<le> 100"
    using water by simp
  have bd: "list_all (\<lambda>kv. 0 \<le> snd kv \<and> snd kv \<le> 100)
      [(''Air Impact'', py_round (air_of data ap an) 1),
       (''Water Impact'', of_int (water_score_of data)),
       (''Land Impact'', py_round (land_score_of data) 1),
       (''Waste Impact'', py_round (waste_score_of data) 1),
       (''Noise Impact'', py_round (noise_score_of data) 1)]"
    using py_round_bounds [of "air_of data ap an"] py_round_bounds [of "land_score_of data"]
      py_round_bounds [of "waste_score_of data"] py_round_bounds [of "noise_score_of data"]
      air land waste noise ws
    by (simp del: One_nat_def)
  have "\<exists>data added_pm25 added_no2 r.
           enrich_data res u = Inr data \<and> added_pm25_of data = Inr added_pm25
           \<and> added_no2_of data = Inr added_no2 \<and> calculate_impact res u = Inr r
           \<and> 0 \<le> air_of data added_pm25 added_no2
           \<and> air_of data added_pm25 added_no2 \<le> 100
           \<and> 0 \<le> water_score_of data \<and> water_score_of data \<le> 100
           \<and> 0 \<le> waste_score_of data \<and> waste_score_of data \<le> 100
           \<and> 0 \<le> land_score_of data \<and> land_score_of data \<le> 100
           \<and> 0 \<le> noise_score_of data \<and> noise_score_of data \<le> 100
           \<and> map fst (breakdown r) =
               [''Air Impact'', ''Water Impact'', ''Land Impact'', ''Waste Impact'',
                ''Noise Impact'']
           \<and> list_all (\<lambda>kv. 0 \<le> snd kv \<and> snd kv \<le> 100) (breakdown r)
           \<and> 0 \<le> sum_of data added_pm25 added_no2
           \<and> sum_of data added_pm25 added_no2 \<le> 100
           \<and> overall_score r = py_round (sum_of data added_pm25 added_no2) 1
           \<and> 0 \<le> overall_score r \<and> overall_score r \<le> 100"
    using d ap an r air water waste land noise ov rov bd
    by (intro exI [of _ data] exI [of _ ap] exI [of _ an] exI [of _ "result_of data ap an"])
      (simp add: overall_def del: One_nat_def)
  with True show ?thesis
    by simp
qed

theorem scores_in_range_witness:
  "valid_input example_input \<and> nonneg_baselines example_resources
   \<and> float_convertible (vehicles_per_day example_input)
   \<and> (\<exists>r. calculate_impact example_resources example_input = Inr r
          \<and> list_all (\<lambda>kv. 0 \<le> snd kv \<and> snd kv \<le> 100) (breakdown r)
          \<and> 0 \<le> overall_score r \<and> overall_score r \<le> 100)"
proof -
  have v: "valid_input example_input"
    by (simp add: valid_input_def example_input_def)
  have n: "nonneg_baselines example_resources"
    by (simp add: nonneg_baselines_def example_resources_eq nonneg_row_def example_city_def)
  have c: "float_convertible (vehicles_per_day example_input)"
    by (simp add: float_convertible_small example_input_def)
  from scores_in_range [OF v n] c
  have "\<exists>r. calculate_impact example_resources example_input = Inr r
          \<and> list_all (\<lambda>kv. 0 \<le> snd kv \<and> snd kv \<le> 100) (breakdown r)
          \<and> 0 \<le> overall_score r \<and> overall_score r \<le> 100"
    by auto
  with v n c show ?thesis
    by simp
qed

subsection \<open>The example request, scored\<close>

lemma example_enriched: "enrich_data example_resources example_input = Inr example_data"
proof -
  have k: "lookup_city example_resources (city_key_of example_input)
           = Some (example_city\<lparr>c_city_lower := ''delhi''\<rparr>)"
    by (simp add: example_keys(1) example_resources_eq lookup_city_def)
  have n: "near_sensitive example_resources 77.21 28.61 = Inr 1"
    by (simp add: example_resources_eq near_sensitive_def example_zone_def haversine_same)
  obtain data where d: "enrich_data example_resources example_input = Inr data"
    using enrich_data_returns by blast
  have "near_sensitive example_resources 77.21 28.61 = Inr (e_near_sensitive_zone data)"
    using enrich_data_near [OF d]
    by (simp add: k resolve_lat_def resolve_lng_def example_city_def)
  with n have e: "e_near_sensitive_zone data = 1"
    by simp
  have b: "e_baseline_pm25 data = 120" "e_baseline_no2 data = 50" "e_baseline_so2 data = 12"
    "e_baseline_co data = 1.2" "e_baseline_o3 data = 35"
    using enrich_data_baselines [OF d] by (simp_all add: k example_city_def)
  have "data = example_data"
    by (rule EnrichedProjectInput.equality)
      (simp_all add: enrich_data_fields [OF d] b e
        example_input_def example_data_def base_noise_of_def py_int_def)
  with d show ?thesis by simp
qed



lemma small_convertible:
  "float_convertible 40" "float_convertible (- 40)" "float_convertible 0"
  by (simp_all add: float_convertible_small)







subsection \<open>Negative inputs\<close>





subsection \<open>Unknown city\<close>

lemma latin1_key:
  "city_key_of (example_input\<lparr>city := ''DELHI'' @ [char_of (160 :: nat)]\<rparr>) = ''delhi''"
proof -
  have "strip (lower (''DELHI'' @ [char_of (160 :: nat)])) = ''delhi''"
    by code_simp
  then show ?thesis
    by (simp add: city_key_of_def)
qed

lemma enrich_data_fallback:
  assumes "lookup_city res (city_key_of u) = None"
    and "near_sensitive res 78.9629 20.5937 = Inr near"
  shows "enrich_data res u = Inr ((fallback_data u)\<lparr>e_near_sensitive_zone := near\<rparr>)"
proof -
  obtain data where d: "enrich_data res u = Inr data"
    using enrich_data_returns by blast
  have "near_sensitive res 78.9629 20.5937 = Inr (e_near_sensitive_zone data)"
    using enrich_data_near [OF d] by (simp add: assms(1) resolve_lat_def resolve_lng_def)
  with assms(2) have n: "e_near_sensitive_zone data = near"
    by simp
  have "data = (fallback_data u)\<lparr>e_near_sensitive_zone := near\<rparr>"
    by (rule EnrichedProjectInput.equality)
      (simp_all add: enrich_data_fields [OF d] enrich_data_baselines [OF d] assms(1) n
        fallback_data_def)
  with d show ?thesis by simp
qed

lemma plain_resources_eq:
  "plain_resources =
     \<lparr>ML_MODEL = Some (), SENSITIVE_LOCS = Some [],
      CITIES_DB = Some [example_city\<lparr>c_city_lower := ''delhi''\<rparr>]\<rparr>"
proof -
  have "lower ''Delhi'' = ''delhi''" by code_simp
  then show ?thesis
    by (simp add: plain_resources_def load_resources_def add_city_lower_def example_city_def)
qed

lemma fallback_key: "city_key_of fallback_input = ''atlantis''"
proof -
  have "strip (lower ''Atlantis'') = ''atlantis''"
    by code_simp
  then show ?thesis
    by (simp add: city_key_of_def fallback_input_def)
qed

lemma plain_lookup: "lookup_city plain_resources (city_key_of fallback_input) = None"
  by (simp add: fallback_key plain_resources_eq lookup_city_def example_city_def)

text \<open>
  Claim C4, as stated, fails: the record enrichment returns has no latitude and no
  longitude. For the request below, whose city no row of the table matches, the
  returned record is the one shown, all its fields listed.
\<close>

theorem unknown_city_record:
  "lookup_city plain_resources (city_key_of fallback_input) = None
   \<and> enrich_data plain_resources fallback_input =
       Inr \<lparr>e_land_area_m2 = 1000, e_built_up_area_m2 = 1500, e_floors = 2,
            e_daily_water_m3 = 0, e_daily_waste_kg = 0, e_hazardous_waste_kg_per_month = 0,
            e_vehicles_per_day = 0, e_fuel_consumption_l_per_day = 0,
            e_distance_to_residential_m = 100, e_vegetation_removed_percent = 32,
            e_avg_noise_db = 50, e_near_sensitive_zone = 0,
            e_baseline_pm25 = 100, e_baseline_no2 = 40, e_baseline_so2 = 15,
            e_baseline_co = 1.5, e_baseline_o3 = 30,
            e_dg_hours_per_day = 0, e_distance_to_water_body_km = 0.3,
            e_stp_present = 1, e_has_rainwater_harvesting = 0, e_waste_segregation = 0,
            e_green_area_percent = 20, e_has_solar = 1, e_energy_efficient_lighting = 1,
            e_rooms = 1\<rparr>"
proof -
  have n: "near_sensitive plain_resources 78.9629 20.5937 = Inr 0"
    by (simp add: near_sensitive_def plain_resources_eq)
  have "enrich_data plain_resources fallback_input
        = Inr ((fallback_data fallback_input)\<lparr>e_near_sensitive_zone := 0\<rparr>)"
    by (rule enrich_data_fallback [OF plain_lookup n])
  moreover have "(fallback_data fallback_input)\<lparr>e_near_sensitive_zone := 0\<rparr> =
       \<lparr>e_land_area_m2 = 1000, e_built_up_area_m2 = 1500, e_floors = 2,
            e_daily_water_m3 = 0, e_daily_waste_kg = 0, e_hazardous_waste_kg_per_month = 0,
            e_vehicles_per_day = 0, e_fuel_consumption_l_per_day = 0,
            e_distance_to_residential_m = 100, e_vegetation_removed_percent = 32,
            e_avg_noise_db = 50, e_near_sensitive_zone = 0,
            e_baseline_pm25 = 100, e_baseline_no2 = 40, e_baseline_so2 = 15,
            e_baseline_co = 1.5, e_baseline_o3 = 30,
            e_dg_hours_per_day = 0, e_distance_to_water_body_km = 0.3,
            e_stp_present = 1, e_has_rainwater_harvesting = 0, e_waste_segregation = 0,
            e_green_area_percent = 20, e_has_solar = 1, e_energy_efficient_lighting = 1,
            e_rooms = 1\<rparr>"
    by (simp add: fallback_data_def fallback_input_def base_noise_of_def py_int_def)
  ultimately show ?thesis
    using plain_lookup by simp
qed

text \<open>
  Claim C4, amended. When the trimmed, lower-cased city name matches no row of the city
  table, enrichment resolves the coordinates (20.5937, 78.9629) and uses them as the
  point of the proximity check; they are not stored. The record it returns holds the
  fields of the request, the flag of that proximity check and the baselines
  PM2.5 = 100, NO2 = 40, SO2 = 15, CO = 1.5 and O3 = 30, and nothing else.
\<close>

theorem unknown_city_fallback:
  assumes "lookup_city res (city_key_of u) = None"
  shows "resolve_lat (lookup_city res (city_key_of u)) = 20.5937
       \<and> resolve_lng (lookup_city res (city_key_of u)) = 78.9629
       \<and> (\<exists>data near. near_sensitive res 78.9629 20.5937 = Inr near
             \<and> enrich_data res u = Inr data
             \<and> data = (fallback_data u)\<lparr>e_near_sensitive_zone := near\<rparr>
             \<and> e_baseline_pm25 data = 100 \<and> e_baseline_no2 data = 40
             \<and> e_baseline_so2 data = 15 \<and> e_baseline_co data = 1.5
             \<and> e_baseline_o3 data = 30)"
proof -
  have c: "resolve_lat (lookup_city res (city_key_of u)) = 20.5937"
    "resolve_lng (lookup_city res (city_key_of u)) = 78.9629"
    by (simp_all add: assms resolve_lat_def resolve_lng_def)
  obtain near where n: "near_sensitive res 78.9629 20.5937 = Inr near"
    using near_sensitive_returns [of res "78.9629" "20.5937"] by blast
  note e = enrich_data_fallback [OF assms n]
  have "\<exists>data near. near_sensitive res 78.9629 20.5937 = Inr near
             \<and> enrich_data res u = Inr data
             \<and> data = (fallback_data u)\<lparr>e_near_sensitive_zone := near\<rparr>
             \<and> e_baseline_pm25 data = 100 \<and> e_baseline_no2 data = 40
             \<and> e_baseline_so2 data = 15 \<and> e_baseline_co data = 1.5
             \<and> e_baseline_o3 data = 30"
    using n e
    by (intro exI [of _ "(fallback_data u)\<lparr>e_near_sensitive_zone := near\<rparr>"] exI [of _ near])
      (simp add: fallback_data_def)
  with c show ?thesis by simp
qed

theorem unknown_city_fallback_witness:
  "lookup_city example_resources (city_key_of (example_input\<lparr>city := ''Atlantis''\<rparr>)) = None
   \<and> (\<exists>data. enrich_data example_resources (example_input\<lparr>city := ''Atlantis''\<rparr>) = Inr data
             \<and> near_sensitive example_resources 78.9629 20.5937 = Inr (e_near_sensitive_zone data)
             \<and> e_baseline_pm25 data = 100 \<and> e_baseline_no2 data = 40
             \<and> e_baseline_so2 data = 15 \<and> e_baseline_co data = 1.5
             \<and> e_baseline_o3 data = 30)"
proof -
  have h: "lookup_city example_resources (city_key_of (example_input\<lparr>city := ''Atlantis''\<rparr>)) = None"
    by (simp add: example_keys(2) example_resources_eq lookup_city_def example_city_def)
  from unknown_city_fallback [OF h] obtain data near
    where "near_sensitive example_resources 78.9629 20.5937 = Inr near"
      and "enrich_data example_resources (example_input\<lparr>city := ''Atlantis''\<rparr>) = Inr data"
      and "data = (fallback_data (example_input\<lparr>city := ''Atlantis''\<rparr>))
                    \<lparr>e_near_sensitive_zone := near\<rparr>"
      and "e_baseline_pm25 data = 100 \<and> e_baseline_no2 data = 40
             \<and> e_baseline_so2 data = 15 \<and> e_baseline_co data = 1.5
             \<and> e_baseline_o3 data = 30"
    by auto
  then have "\<exists>data. enrich_data example_resources (example_input\<lparr>city := ''Atlantis''\<rparr>) = Inr data
             \<and> near_sensitive example_resources 78.9629 20.5937 = Inr (e_near_sensitive_zone data)
             \<and> e_baseline_pm25 data = 100 \<and> e_baseline_no2 data = 40
             \<and> e_baseline_so2 data = 15 \<and> e_baseline_co data = 1.5
             \<and> e_baseline_o3 data = 30"
    by (intro exI [of _ data]) simp
  with h show ?thesis by simp
qed

subsection \<open>Degraded mode\<close>


lemma degraded_lookups:
  assumes "CITIES_DB res = None" "SENSITIVE_LOCS res = None"
  shows "lookup_city res k = None" and "near_sensitive res lng lat = Inr 0"
  using assms by (simp_all add: lookup_city_def near_sensitive_def)

lemma degraded_enriched:
  assumes "CITIES_DB res = None" "SENSITIVE_LOCS res = None"
  shows "enrich_data res u = Inr (fallback_data u)"
proof -
  have "enrich_data res u = Inr ((fallback_data u)\<lparr>e_near_sensitive_zone := 0\<rparr>)"
    by (rule enrich_data_fallback) (rule degraded_lookups [OF assms])+
  then show ?thesis
    by (simp add: fallback_data_def)
qed

lemma degraded_resources_eq:
  "degraded_resources = \<lparr>ML_MODEL = None, SENSITIVE_LOCS = None, CITIES_DB = None\<rparr>"
  by (simp add: degraded_resources_def load_resources_def)

lemma degraded_enrich_data: "enrich_data degraded_resources u = Inr (fallback_data u)"
  by (rule degraded_enriched) (simp_all add: degraded_resources_eq)

lemma fallback_added:
  assumes "vehicles_per_day u = 0" "fuel_consumption_l_per_day u = 0"
  shows "added_pm25_of (fallback_data u) = Inr 0" "added_no2_of (fallback_data u) = Inr 0"
proof -
  have "float_convertible (e_vehicles_per_day (fallback_data u))"
    by (simp add: fallback_data_def assms(1) small_convertible)
  from added_Inr [OF this]
  show "added_pm25_of (fallback_data u) = Inr 0" "added_no2_of (fallback_data u) = Inr 0"
    by (simp_all add: fallback_data_def assms)
qed

lemma rec_added:
  "added_pm25_of (fallback_data rec_input) = Inr 0"
  "added_no2_of (fallback_data rec_input) = Inr 0"
  by (rule fallback_added; simp add: rec_input_def fallback_input_def)+

lemma rec_scores:
  "final_pm25_of (fallback_data rec_input) 0 = 100"
  "final_no2_of (fallback_data rec_input) 0 = 40"
  "air_score_of (fallback_data rec_input) 100 40 = 70"
  "water_score_of (fallback_data rec_input) = 10"
  "land_score_of (fallback_data rec_input) = 10"
  "waste_score_of (fallback_data rec_input) = 20"
  "noise_score_of (fallback_data rec_input) = 10"
  "e_has_solar (fallback_data rec_input) = 0"
  "e_energy_efficient_lighting (fallback_data rec_input) = 0"
  by (simp_all add: air_score_of_def water_score_of_def land_score_of_def waste_score_of_def
      noise_score_of_def final_pm25_of_def final_no2_of_def
      fallback_data_def rec_input_def fallback_input_def base_noise_of_def
      py_int_def Let_def)










subsection \<open>Water score\<close>

text \<open>
  Claim C7. For an enriched record with a built-up area of 1500, a daily water use of
  20, a water body at 0.3 km, no sewage treatment and no rainwater harvesting, the
  water sub-score is 100: 100 persons, 200 litres per person and day (above 150, +40),
  less than 0.5 km to water (+40), no sewage treatment (+20), and the sum 100 stays
  as it is under the clamp. The endpoint returns it as \<open>Water Impact\<close>.
\<close>

theorem water_score_example:
  assumes "e_built_up_area_m2 data = 1500" "e_daily_water_m3 data = 20"
    and "e_distance_to_water_body_km data = 0.3"
    and "e_stp_present data = 0" "e_has_rainwater_harvesting data = 0"
  shows "max 1 (e_built_up_area_m2 data / 15) = 100
       \<and> (e_daily_water_m3 data * 1000) / max 1 (e_built_up_area_m2 data / 15) = 200
       \<and> water_score_of data = 100
       \<and> (enrich_data res u = Inr data \<and> float_convertible (vehicles_per_day u) \<longrightarrow>
             (\<exists>r. calculate_impact res u = Inr r
                  \<and> map_of (breakdown r) ''Water Impact'' = Some 100))"
proof -
  have w: "water_score_of data = 100"
    by (simp add: water_score_of_def Let_def assms)
  have "\<exists>r. calculate_impact res u = Inr r
                  \<and> map_of (breakdown r) ''Water Impact'' = Some 100"
    if e: "enrich_data res u = Inr data" and c: "float_convertible (vehicles_per_day u)"
  proof -
    have "float_convertible (e_vehicles_per_day data)"
      using c by (simp add: enrich_data_fields(7) [OF e])
    note a = added_Inr [OF this]
    show ?thesis
      by (simp add: calculate_impact_Inr [OF e a] w)
  qed
  then show ?thesis
    using w by (simp add: assms)
qed

theorem water_score_example_witness:
  "e_built_up_area_m2 example_data = 1500 \<and> e_daily_water_m3 example_data = 20
   \<and> e_distance_to_water_body_km example_data = 0.3
   \<and> e_stp_present example_data = 0 \<and> e_has_rainwater_harvesting example_data = 0
   \<and> water_score_of example_data = 100
   \<and> (\<exists>r. calculate_impact example_resources example_input = Inr r
          \<and> map_of (breakdown r) ''Water Impact'' = Some 100)"
proof -
  have h: "e_built_up_area_m2 example_data = 1500" "e_daily_water_m3 example_data = 20"
    "e_distance_to_water_body_km example_data = 0.3"
    "e_stp_present example_data = 0" "e_has_rainwater_harvesting example_data = 0"
    by (simp_all add: example_data_def)
  have c: "float_convertible (vehicles_per_day example_input)"
    by (simp add: example_input_def small_convertible)
  note t = water_score_example [OF h, of example_resources example_input]
  from t have "\<exists>r. calculate_impact example_resources example_input = Inr r
          \<and> map_of (breakdown r) ''Water Impact'' = Some 100"
    using example_enriched c by simp
  with t h show ?thesis by simp
qed

subsection \<open>Category thresholds\<close>










subsection \<open>Recommendations\<close>

text \<open>
  Claim C8. The recommendations are the texts of the rules that fire, in the fixed
  order air score above 50, water score above 50, land score above 50, no solar, no
  efficient lighting; the endpoint returns this list for its own three scores. For an
  air score of 70, a water score of 10, a land score of 10, no solar and no efficient
  lighting the list is the air text, the solar text and the LED text, in that order.
\<close>

theorem recommendations_order:
  "recommendations_of air_score water_score land_score data =
     (if air_score > 50 then [rec_air] else [])
     @ (if water_score > 50 then [rec_water] else [])
     @ (if land_score > 50 then [rec_land] else [])
     @ (if e_has_solar data = 0 then [rec_solar] else [])
     @ (if e_energy_efficient_lighting data = 0 then [rec_led] else [])
   \<and> (e_has_solar data = 0 \<and> e_energy_efficient_lighting data = 0 \<longrightarrow>
        recommendations_of 70 10 10 data = [rec_air, rec_solar, rec_led])
   \<and> (enrich_data res u = Inr data \<and> added_pm25_of data = Inr added_pm25
        \<and> added_no2_of data = Inr added_no2 \<longrightarrow>
        (\<exists>r. calculate_impact res u = Inr r
           \<and> recommendations r =
               recommendations_of (air_of data added_pm25 added_no2) (water_score_of data)
                 (land_score_of data) data))"
proof (intro conjI impI)
  show "recommendations_of air_score water_score land_score data =
     (if air_score > 50 then [rec_air] else [])
     @ (if water_score > 50 then [rec_water] else [])
     @ (if land_score > 50 then [rec_land] else [])
     @ (if e_has_solar data = 0 then [rec_solar] else [])
     @ (if e_energy_efficient_lighting data = 0 then [rec_led] else [])"
    by (simp add: recommendations_of_def Let_def)
  show "recommendations_of 70 10 10 data = [rec_air, rec_solar, rec_led]"
    if "e_has_solar data = 0 \<and> e_energy_efficient_lighting data = 0"
    using that by (simp add: recommendations_of_def Let_def)
  show "\<exists>r. calculate_impact res u = Inr r
           \<and> recommendations r =
               recommendations_of (air_of data added_pm25 added_no2) (water_score_of data)
                 (land_score_of data) data"
    if "enrich_data res u = Inr data \<and> added_pm25_of data = Inr added_pm25
        \<and> added_no2_of data = Inr added_no2"
    using that by (simp add: calculate_impact_Inr)
qed

theorem recommendations_order_witness:
  "e_has_solar (fallback_data rec_input) = 0
   \<and> e_energy_efficient_lighting (fallback_data rec_input) = 0
   \<and> enrich_data degraded_resources rec_input = Inr (fallback_data rec_input)
   \<and> added_pm25_of (fallback_data rec_input) = Inr 0
   \<and> added_no2_of (fallback_data rec_input) = Inr 0
   \<and> air_of (fallback_data rec_input) 0 0 = 70
   \<and> water_score_of (fallback_data rec_input) = 10
   \<and> land_score_of (fallback_data rec_input) = 10
   \<and> (\<exists>r. calculate_impact degraded_resources rec_input = Inr r
          \<and> recommendations r = [rec_air, rec_solar, rec_led])
   \<and> rec_air = ''High Air Pollution risk: Install Air Purifiers and Smog Towers.''
   \<and> rec_solar = ''Energy: Install Solar Panels to reduce carbon footprint.''
   \<and> rec_led = ''Energy: Switch to LED lighting.''"
proof -
  note t = recommendations_order [of 70 10 10 "fallback_data rec_input" degraded_resources
      rec_input 0 0]
  have h: "e_has_solar (fallback_data rec_input) = 0
           \<and> e_energy_efficient_lighting (fallback_data rec_input) = 0"
    by (simp add: rec_scores)
  have e: "enrich_data degraded_resources rec_input = Inr (fallback_data rec_input)"
    by (rule degraded_enrich_data)
  have s: "air_of (fallback_data rec_input) 0 0 = 70"
    by (simp add: rec_scores)
  from t h have l: "recommendations_of 70 10 10 (fallback_data rec_input)
                    = [rec_air, rec_solar, rec_led]"
    by simp
  from t e rec_added have "\<exists>r. calculate_impact degraded_resources rec_input = Inr r
           \<and> recommendations r =
               recommendations_of (air_of (fallback_data rec_input) 0 0)
                 (water_score_of (fallback_data rec_input))
                 (land_score_of (fallback_data rec_input)) (fallback_data rec_input)"
    by simp
  then have "\<exists>r. calculate_impact degraded_resources rec_input = Inr r
          \<and> recommendations r = [rec_air, rec_solar, rec_led]"
    by (simp add: s rec_scores(4,5) l)
  with h e s rec_added show ?thesis
    by (simp add: rec_scores(4,5) rec_air_def rec_solar_def rec_led_def)
qed

subsection \<open>Green-area percentage\<close>

lemma py_int_examples: "py_int 9.9 = 9" "py_int 10 = 10"
  by (simp_all add: py_int_def)

text \<open>
  The threshold 10 is an integer, so the truncated value is below it exactly when the
  value of the request is.
\<close>

lemma py_int_below_ten: "py_int x < 10 \<longleftrightarrow> x < 10"
proof (cases "0 \<le> x")
  case True
  then show ?thesis
    by (simp add: py_int_def floor_less_iff)
next
  case False
  then have "\<lceil>x\<rceil> \<le> 0"
    by (simp add: ceiling_le_iff)
  with False show ?thesis
    by (simp add: py_int_def)
qed

text \<open>
  Claim C10. Enrichment truncates the fractional green-area percentage of the request
  to an integer, and the land sub-score decides its penalty of 20 for a green-area
  percentage below 10 on the truncated value: 9.9 becomes 9 and the penalty applies,
  10.0 becomes 10 and it does not.
\<close>

theorem green_area_truncated:
  "\<exists>data. enrich_data res u = Inr data
     \<and> e_green_area_percent data = py_int (green_area_percent u)
     \<and> land_score_of data =
         min 100 (e_vegetation_removed_percent data
                  + (if e_near_sensitive_zone data = 1 then 40 else 0)
                  + (if py_int (green_area_percent u) < 10 then 20 else 0))
     \<and> (green_area_percent u = 9.9 \<longrightarrow>
          e_green_area_percent data = 9
          \<and> land_score_of data =
              min 100 (e_vegetation_removed_percent data
                       + (if e_near_sensitive_zone data = 1 then 40 else 0) + 20))
     \<and> (green_area_percent u = 10.0 \<longrightarrow>
          e_green_area_percent data = 10
          \<and> land_score_of data =
              min 100 (e_vegetation_removed_percent data
                       + (if e_near_sensitive_zone data = 1 then 40 else 0)))"
proof -
  obtain data where d: "enrich_data res u = Inr data"
    using enrich_data_returns by blast
  have g: "e_green_area_percent data = py_int (green_area_percent u)"
    by (rule enrich_data_fields(17) [OF d])
  have l: "land_score_of data =
         min 100 (e_vegetation_removed_percent data
                  + (if e_near_sensitive_zone data = 1 then 40 else 0)
                  + (if py_int (green_area_percent u) < 10 then 20 else 0))"
    by (simp add: land_score_of_def Let_def g)
  have a: "e_green_area_percent data = 9
          \<and> land_score_of data =
              min 100 (e_vegetation_removed_percent data
                       + (if e_near_sensitive_zone data = 1 then 40 else 0) + 20)"
    if "green_area_percent u = 9.9"
  proof -
    have "py_int (green_area_percent u) = 9"
      unfolding that by (rule py_int_examples(1))
    then show ?thesis by (simp add: l g)
  qed
  have b: "e_green_area_percent data = 10
          \<and> land_score_of data =
              min 100 (e_vegetation_removed_percent data
                       + (if e_near_sensitive_zone data = 1 then 40 else 0))"
    if "green_area_percent u = 10.0"
  proof -
    have "py_int (green_area_percent u) = 10"
      unfolding that by (simp add: py_int_def)
    then show ?thesis by (simp add: l g)
  qed
  show ?thesis
    using d g l a b by (intro exI [of _ data]) simp
qed

theorem green_area_truncated_witness:
  "green_area_percent example_input = 9.9
   \<and> green_area_percent (example_input\<lparr>green_area_percent := 10.0\<rparr>) = 10.0
   \<and> (\<exists>data. enrich_data example_resources example_input = Inr data
          \<and> e_green_area_percent data = 9 \<and> land_score_of data = 70)
   \<and> (\<exists>data. enrich_data example_resources (example_input\<lparr>green_area_percent := 10.0\<rparr>)
                = Inr data
          \<and> e_green_area_percent data = 10
          \<and> land_score_of data =
              min 100 (e_vegetation_removed_percent data
                       + (if e_near_sensitive_zone data = 1 then 40 else 0)))"
proof -
  have h1: "green_area_percent example_input = 9.9"
    by (simp add: example_input_def)
  have h2: "green_area_percent (example_input\<lparr>green_area_percent := 10.0\<rparr>) = 10.0"
    by simp
  from green_area_truncated [of example_resources example_input] h1
  have "\<exists>data. enrich_data example_resources example_input = Inr data
          \<and> e_green_area_percent data = 9
          \<and> land_score_of data =
              min 100 (e_vegetation_removed_percent data
                       + (if e_near_sensitive_zone data = 1 then 40 else 0) + 20)"
    by auto
  then have w1: "\<exists>data. enrich_data example_resources example_input = Inr data
          \<and> e_green_area_percent data = 9 \<and> land_score_of data = 70"
    by (simp add: example_enriched example_data_def)
  from green_area_truncated
    [of example_resources "example_input\<lparr>green_area_percent := 10.0\<rparr>"] h2
  have w2: "\<exists>data. enrich_data example_resources (example_input\<lparr>green_area_percent := 10.0\<rparr>)
                = Inr data
          \<and> e_green_area_percent data = 10
          \<and> land_score_of data =
              min 100 (e_vegetation_removed_percent data
                       + (if e_near_sensitive_zone data = 1 then 40 else 0))"
    by auto
  from h1 h2 w1 w2 show ?thesis
    by (intro conjI)
qed

end
